theory Spec2Isabelle
  imports Complex_Main "HOL-Library.Word" "HOL-Library.Sublist"
begin

section \<open>Tensors and Python errors\<close>

text \<open>
  A torch tensor is modelled by its shape and its elements in row-major order.
  Floating-point elements are idealised as reals: rounding, infinities and NaN are
  outside the model. Integer tensors carry machine words.
\<close>

record 'a tensor =
  shape :: "nat list"
  data :: "'a list"

datatype py_error =
    RuntimeError
  | IndexError
  | KeyError
  | AttributeError
  | StopIteration
  | OSError
  | KeyboardInterrupt

text \<open>
  \<open>except Exception\<close> catches every error above except \<open>KeyboardInterrupt\<close>, which
  derives from \<open>BaseException\<close> only.
\<close>

definition is_Exception :: "py_error \<Rightarrow> bool" where
  "is_Exception e = (e \<noteq> KeyboardInterrupt)"

definition bind_err :: "py_error + 'a \<Rightarrow> ('a \<Rightarrow> py_error + 'b) \<Rightarrow> py_error + 'b" where
  "bind_err r k = (case r of Inl e \<Rightarrow> Inl e | Inr v \<Rightarrow> k v)"

definition numel :: "'a tensor \<Rightarrow> nat" where
  "numel t = prod_list (shape t)"


text \<open>Row \<open>r\<close> of a row-major buffer whose rows have \<open>k\<close> elements.\<close>

definition row_at :: "nat \<Rightarrow> 'a list \<Rightarrow> nat \<Rightarrow> 'a list" where
  "row_at k xs r = take k (drop (r * k) xs)"

definition rows_of :: "nat \<Rightarrow> nat \<Rightarrow> 'a list \<Rightarrow> 'a list list" where
  "rows_of k n xs = map (row_at k xs) [0..<n]"




text \<open>\<open>t / s\<close> for a Python float \<open>s\<close>: every element is divided by \<open>s\<close>.\<close>

definition tensor_div :: "real tensor \<Rightarrow> real \<Rightarrow> real tensor" where
  "tensor_div t s = t\<lparr>data := map (\<lambda>v. v / s) (data t)\<rparr>"

text \<open>
  \<open>t.reshape(a, b)\<close> with two non-negative sizes: the element count must be \<open>a * b\<close>,
  otherwise torch raises a \<open>RuntimeError\<close>. The elements keep their row-major order.
\<close>

definition reshape :: "'a tensor \<Rightarrow> nat \<Rightarrow> nat \<Rightarrow> py_error + 'a tensor" where
  "reshape t a b = (if numel t = a * b then Inr (t\<lparr>shape := [a, b]\<rparr>) else Inl RuntimeError)"






section \<open>Parameters in memory\<close>

text \<open>
  Parameters are objects that the code mutates (\<open>requires_grad\<close>) and copies
  (\<open>detach().clone()\<close>), so they live in a store: a list of tensor objects, addressed by
  position. A new tensor is allocated at the end.
\<close>

datatype dtype = Float16 | BFloat16 | Float32 | Float64

record tensor_obj =
  t_data :: "real tensor"
  t_dtype :: dtype
  requires_grad :: bool

type_synonym store = "tensor_obj list"

definition alloc :: "store \<Rightarrow> tensor_obj \<Rightarrow> store \<times> nat" where
  "alloc ts t = (ts @ [t], length ts)"

text \<open>
  \<open>p.detach().clone().type(dtype)\<close>: \<open>detach\<close> leaves the autograd graph, \<open>clone\<close>
  gives the tensor a storage of its own, and \<open>type\<close> converts the elements to \<open>dtype\<close>.
  The conversion rounds to the target format (\<open>rnd\<close>, a parameter of the model) and
  returns the tensor as it is when it already has that dtype. The one tensor that
  survives the chain is allocated.
\<close>

definition detach :: "tensor_obj \<Rightarrow> tensor_obj" where
  "detach t = t\<lparr>requires_grad := False\<rparr>"

definition tensor_type :: "(dtype \<Rightarrow> real \<Rightarrow> real) \<Rightarrow> dtype \<Rightarrow> tensor_obj \<Rightarrow> tensor_obj" where
  "tensor_type rnd d t =
     (if t_dtype t = d then t
      else t\<lparr>t_data := (t_data t)\<lparr>data := map (rnd d) (data (t_data t))\<rparr>, t_dtype := d\<rparr>)"

definition detach_clone_type ::
  "(dtype \<Rightarrow> real \<Rightarrow> real) \<Rightarrow> dtype \<Rightarrow> store \<Rightarrow> nat \<Rightarrow> store \<times> nat" where
  "detach_clone_type rnd d ts a = alloc ts (tensor_type rnd d (detach (ts ! a)))"

section \<open>Irreps and the generic linear layer\<close>

text \<open>
  An \<open>o3.Irreps\<close> is a list of multiplicities with an irrep \<open>(l, p)\<close> each;
  \<open>num_irreps\<close> is the sum of the multiplicities.
\<close>

type_synonym irrep = "nat \<times> int"
type_synonym irreps = "(nat \<times> irrep) list"

definition num_irreps :: "irreps \<Rightarrow> nat" where
  "num_irreps irs = sum_list (map fst irs)"

text \<open>\<open>o3.Irreps.spherical_harmonics(lmax)\<close>: one irrep of parity \<open>(-1)^l\<close> for each \<open>l\<close>.\<close>

definition Irreps_spherical_harmonics :: "nat \<Rightarrow> irreps" where
  "Irreps_spherical_harmonics lmax = map (\<lambda>l. (1, (l, (- 1) ^ l))) [0..<Suc lmax]"

record instruction =
  i_in :: nat
  i_out :: nat
  path_shape :: "nat list"
  path_weight :: real

record e3nn_linear =
  irreps_in :: irreps
  irreps_out :: irreps
  instructions :: "instruction list"
  weight :: nat

section \<open>linear_matmul\<close>

record linear_matmul =
  weights :: "real tensor"

definition linear_matmul_init :: "store \<Rightarrow> e3nn_linear \<Rightarrow> py_error + linear_matmul" where
  "linear_matmul_init ts linear_e3nn =
     (let num_channels_in = num_irreps (irreps_in linear_e3nn);
          num_channels_out = num_irreps (irreps_out linear_e3nn)
      in bind_err (reshape (t_data (ts ! weight linear_e3nn)) num_channels_in num_channels_out)
           (\<lambda>w. Inr \<lparr>weights = tensor_div w (real num_channels_in powr (1 / 2))\<rparr>))"



text \<open>\<open>linear_to_cuda\<close> hands the layer's metadata and weight to the accelerated \<open>Linear\<close>.\<close>

record cuda_Linear =
  cl_irreps_in :: irreps
  cl_irreps_out :: irreps
  cl_instructions :: "instruction list"
  cl_weight :: nat

definition linear_to_cuda :: "e3nn_linear \<Rightarrow> cuda_Linear" where
  "linear_to_cuda lin =
     \<lparr>cl_irreps_in = irreps_in lin, cl_irreps_out = irreps_out lin,
      cl_instructions = instructions lin, cl_weight = weight lin\<rparr>"

section \<open>SymmetricContractionWrapper\<close>

text \<open>
  The accelerated contraction module is external. The model keeps the arguments it was
  constructed with; what calling it computes is a parameter (\<open>CUDAContraction_call\<close>
  below). The weight mapping \<open>all_weights\<close> is a dictionary from \<open>str(j)\<close> to a
  dictionary from the body order to the address of a weight tensor.
\<close>

type_synonym all_weights = "string \<rightharpoonup> (int \<rightharpoonup> nat)"

record CUDAContraction =
  cc_coupling_irreps :: irreps
  cc_irreps_out :: irreps
  cc_all_weights :: all_weights
  nthreadX :: nat
  nthreadY :: nat
  nthreadZ :: nat
  cc_dtype :: dtype

record SymmetricContractionWrapper =
  symmetric_contractions :: CUDAContraction

text \<open>
  \<open>Tensor.argmax(dim=-1)\<close>: the index of the first maximal element of every row of
  the last axis, as a 64-bit integer tensor without that axis. A zero-dimensional tensor
  yields index 0; an empty last axis raises.
\<close>

fun argmax_from :: "'a::linorder \<Rightarrow> nat \<Rightarrow> nat \<Rightarrow> 'a list \<Rightarrow> nat" where
  "argmax_from best bi i [] = bi"
| "argmax_from best bi i (v # vs) =
     (if best < v then argmax_from v i (Suc i) vs else argmax_from best bi (Suc i) vs)"

definition argmax_row :: "'a::linorder list \<Rightarrow> nat" where
  "argmax_row vs = (case vs of [] \<Rightarrow> 0 | v # rest \<Rightarrow> argmax_from v 0 1 rest)"

definition argmax_last :: "real tensor \<Rightarrow> py_error + 64 word tensor" where
  "argmax_last y =
     (if shape y = [] then Inr \<lparr>shape = [], data = [0]\<rparr>
      else if last (shape y) = 0 then Inl IndexError
      else Inr \<lparr>shape = butlast (shape y),
                data = map (\<lambda>row. of_nat (argmax_row row))
                         (rows_of (last (shape y)) (prod_list (butlast (shape y))) (data y))\<rparr>)"

text \<open>\<open>Tensor.int()\<close>: conversion to 32-bit integers keeps the low 32 bits.\<close>

definition int_cast :: "64 word tensor \<Rightarrow> 32 word tensor" where
  "int_cast t = \<lparr>shape = shape t, data = map ucast (data t)\<rparr>"

text \<open>\<open>Tensor.squeeze()\<close> without a dimension drops every axis of size 1.\<close>

definition squeeze :: "'a tensor \<Rightarrow> 'a tensor" where
  "squeeze t = t\<lparr>shape := filter (\<lambda>d. d \<noteq> 1) (shape t)\<rparr>"

definition SymmetricContractionWrapper_forward ::
  "(CUDAContraction \<Rightarrow> real tensor \<Rightarrow> 32 word tensor \<Rightarrow> py_error + real tensor) \<Rightarrow>
   SymmetricContractionWrapper \<Rightarrow> real tensor \<Rightarrow> real tensor \<Rightarrow> py_error + real tensor" where
  "SymmetricContractionWrapper_forward CUDAContraction_call self x y =
     bind_err (argmax_last y)
       (\<lambda>yi. bind_err (CUDAContraction_call (symmetric_contractions self) x (int_cast yi))
          (\<lambda>out. Inr (squeeze out)))"

text \<open>
  The reading of the specification: only a trailing axis of size 1 is removed.
\<close>

definition squeeze_trailing :: "'a tensor \<Rightarrow> 'a tensor" where
  "squeeze_trailing t =
     (if shape t \<noteq> [] \<and> last (shape t) = 1 then t\<lparr>shape := butlast (shape t)\<rparr> else t)"

section \<open>Interaction blocks and the two rewritten forwards\<close>

text \<open>
  One record serves the block before and after the rewrite: the type parameters say what
  the slots hold. A block of the loaded model holds e3nn linear layers and has neither a
  \<open>tp\<close> attribute nor a rebound \<open>forward\<close> (both \<open>unit\<close>); a rewritten block holds a
  \<open>linear_matmul\<close>, an accelerated \<open>Linear\<close>, an \<open>InvariantMessagePassingTP\<close> and the
  forward it was bound to. The layers that the rewrite leaves alone (\<open>skip_tp\<close>,
  \<open>conv_tp_weights\<close>) are callables.
\<close>

datatype InvariantMessagePassingTP = InvariantMessagePassingTP

datatype forward_binding =
    invariant_residual_interaction_forward_bound
  | invariant_interaction_forward_bound

record ('up, 'lin, 'tp, 'fwd) InteractionBlock =
  class_name :: string
  linear_up :: 'up
  conv_tp_weights :: "real tensor \<Rightarrow> py_error + real tensor"
  linear_layer :: 'lin
  skip_tp :: "real tensor \<Rightarrow> real tensor \<Rightarrow> py_error + real tensor"
  avg_num_neighbors :: real
  tp :: 'tp
  forward :: 'fwd

type_synonym generic_block = "(e3nn_linear, e3nn_linear, unit, unit) InteractionBlock"
type_synonym optimized_block =
  "(linear_matmul, cuda_Linear, InvariantMessagePassingTP, forward_binding) InteractionBlock"









text \<open>Python's \<open>p in s\<close> on strings: \<open>p\<close> is a prefix of some suffix of \<open>s\<close>.\<close>

fun str_contains :: "string \<Rightarrow> string \<Rightarrow> bool" where
  "str_contains p [] = (p = [])"
| "str_contains p (c # cs) = (prefix p (c # cs) \<or> str_contains p cs)"

section \<open>Extracting the contraction weights\<close>

text \<open>Python's \<open>str\<close> of a non-negative integer: its decimal digits.\<close>

definition digit_char :: "nat \<Rightarrow> char" where
  "digit_char d = char_of (48 + d)"

fun str_nat :: "nat \<Rightarrow> string" where
  "str_nat n = (if n < 10 then [digit_char n] else str_nat (n div 10) @ [digit_char (n mod 10)])"

declare str_nat.simps [simp del]

text \<open>
  A contraction of the generic symmetric-contraction layer holds the address of its
  highest-order weight and the addresses of the lower-order weights, as a list.
\<close>

record Contraction =
  weights_max :: nat
  c_weights :: "nat list"

record SymmetricContraction =
  sc_irreps_in :: irreps
  sc_irreps_out :: irreps
  contractions :: "Contraction list"

text \<open>
  The loop over \<open>j\<close> of lines 87 to 97. Indexing \<open>weights[0]\<close> or \<open>weights[1]\<close> past the
  end of the list raises \<open>IndexError\<close>. The copies are allocated in the order the code
  makes them: body order 3, then 2, then 1.
\<close>

fun extract_weights ::
  "(dtype \<Rightarrow> real \<Rightarrow> real) \<Rightarrow> dtype \<Rightarrow> Contraction list \<Rightarrow> nat \<Rightarrow> store \<Rightarrow> all_weights \<Rightarrow>
   py_error + (store \<times> all_weights)" where
  "extract_weights rnd d [] j ts aw = Inr (ts, aw)"
| "extract_weights rnd d (c # cs) j ts aw =
     (let (ts3, a3) = detach_clone_type rnd d ts (weights_max c) in
      if length (c_weights c) \<le> 0 then Inl IndexError
      else let (ts2, a2) = detach_clone_type rnd d ts3 (c_weights c ! 0) in
      if length (c_weights c) \<le> 1 then Inl IndexError
      else let (ts1, a1) = detach_clone_type rnd d ts2 (c_weights c ! 1) in
      extract_weights rnd d cs (Suc j) ts1
        (aw(str_nat j \<mapsto> [3 \<mapsto> a3, 2 \<mapsto> a2, 1 \<mapsto> a1])))"


definition extract_all_weights ::
  "(dtype \<Rightarrow> real \<Rightarrow> real) \<Rightarrow> dtype \<Rightarrow> store \<Rightarrow> SymmetricContraction \<Rightarrow>
   py_error + (store \<times> all_weights)" where
  "extract_all_weights rnd d ts symm_contract =
     extract_weights rnd d (contractions symm_contract) 0 ts Map.empty"

section \<open>The model and optimize_cuda_mace\<close>

record ('sc, 'lin) ProductBlock =
  p_symmetric_contractions :: 'sc
  p_linear :: 'lin

type_synonym generic_product = "(SymmetricContraction, e3nn_linear) ProductBlock"
type_synonym optimized_product = "(SymmetricContractionWrapper, linear_matmul) ProductBlock"

datatype interaction = Generic generic_block | Optimized optimized_block
datatype product = GenericP generic_product | OptimizedP optimized_product

datatype SphericalHarmonics =
    OriginalSphericalHarmonics
  | SphericalHarmonics irreps bool string string

text \<open>
  \<open>parameters\<close> is what \<open>model.parameters()\<close> yields: the addresses of the registered
  parameters, in torch's order. \<open>node_embedding\<close> stands for \<open>node_embedding.linear\<close>.
\<close>

record MACE =
  parameters :: "nat list"
  num_interactions :: int
  spherical_harmonics :: SphericalHarmonics
  node_embedding :: e3nn_linear
  interactions :: "interaction list"
  products :: "product list"

text \<open>Model objects live in a heap of their own, so that a reference has an identity.\<close>

record world =
  models :: "MACE list"
  tensors :: store

fun freeze :: "nat list \<Rightarrow> store \<Rightarrow> store" where
  "freeze [] ts = ts"
| "freeze (param # params) ts = freeze params (ts[param := (ts ! param)\<lparr>requires_grad := False\<rparr>])"

definition get_model_dtype :: "store \<Rightarrow> MACE \<Rightarrow> py_error + dtype" where
  "get_model_dtype ts model =
     (case parameters model of [] \<Rightarrow> Inl StopIteration | p # _ \<Rightarrow> Inr (t_dtype (ts ! p)))"

text \<open>
  Lines 74 to 84 on interaction block \<open>i\<close>. A block that was rewritten before holds a
  \<open>linear_matmul\<close> as \<open>linear_up\<close>, whose \<open>__dict__\<close> has no \<open>irreps_in\<close>: line 74 raises
  \<open>KeyError\<close>.
\<close>

definition rewrite_interaction :: "store \<Rightarrow> interaction \<Rightarrow> py_error + optimized_block" where
  "rewrite_interaction ts blk =
     (case blk of
        Optimized _ \<Rightarrow> Inl KeyError
      | Generic b \<Rightarrow>
          bind_err (linear_matmul_init ts (linear_up b))
            (\<lambda>up. Inr \<lparr>class_name = class_name b,
                       linear_up = up,
                       conv_tp_weights = conv_tp_weights b,
                       linear_layer = linear_to_cuda (linear_layer b),
                       skip_tp = skip_tp b,
                       avg_num_neighbors = avg_num_neighbors b,
                       tp = InvariantMessagePassingTP,
                       forward =
                         (if str_contains ''Residual'' (class_name b)
                          then invariant_residual_interaction_forward_bound
                          else invariant_interaction_forward_bound)\<rparr>))"

text \<open>
  Lines 85 to 113 on product block \<open>i\<close>. A product block that was rewritten before holds
  the wrapper, which has no \<open>contractions\<close>: line 87 raises \<open>AttributeError\<close>.
\<close>

definition rewrite_product ::
  "(dtype \<Rightarrow> real \<Rightarrow> real) \<Rightarrow> dtype \<Rightarrow> store \<Rightarrow> product \<Rightarrow> py_error + (store \<times> optimized_product)" where
  "rewrite_product rnd d ts pblk =
     (case pblk of
        OptimizedP _ \<Rightarrow> Inl AttributeError
      | GenericP p \<Rightarrow>
          (let symm_contract = p_symmetric_contractions p in
           bind_err (extract_all_weights rnd d ts symm_contract)
             (\<lambda>(ts', all_weights).
                let irreps_in = sc_irreps_in symm_contract;
                    coupling_irreps = map (\<lambda>irrep. (1, snd irrep)) irreps_in;
                    irreps_out = sc_irreps_out symm_contract;
                    symmetric_contractions =
                      \<lparr>cc_coupling_irreps = coupling_irreps, cc_irreps_out = irreps_out,
                       cc_all_weights = all_weights, nthreadX = 32, nthreadY = 4,
                       nthreadZ = 1, cc_dtype = d\<rparr>
                in bind_err (linear_matmul_init ts' (p_linear p))
                     (\<lambda>lin. Inr (ts', \<lparr>p_symmetric_contractions =
                                         \<lparr>symmetric_contractions = symmetric_contractions\<rparr>,
                                       p_linear = lin\<rparr>)))))"

text \<open>
  One iteration of the loop over \<open>i\<close>, and the loop. \<open>model.interactions[i]\<close> and
  \<open>model.products[i]\<close> raise \<open>IndexError\<close> past the end of the module list.
\<close>

definition rewrite_layer ::
  "(dtype \<Rightarrow> real \<Rightarrow> real) \<Rightarrow> dtype \<Rightarrow> store \<times> MACE \<Rightarrow> nat \<Rightarrow> py_error + (store \<times> MACE)" where
  "rewrite_layer rnd d st i =
     (let ts = fst st; model = snd st in
      if length (interactions model) \<le> i then Inl IndexError
      else bind_err (rewrite_interaction ts (interactions model ! i))
        (\<lambda>blk. let model1 = model\<lparr>interactions := (interactions model)[i := Optimized blk]\<rparr> in
           if length (products model1) \<le> i then Inl IndexError
           else bind_err (rewrite_product rnd d ts (products model1 ! i))
             (\<lambda>(ts', pblk).
                Inr (ts', model1\<lparr>products := (products model1)[i := OptimizedP pblk]\<rparr>))))"

fun rewrite_layers ::
  "(dtype \<Rightarrow> real \<Rightarrow> real) \<Rightarrow> dtype \<Rightarrow> store \<times> MACE \<Rightarrow> nat list \<Rightarrow> py_error + (store \<times> MACE)" where
  "rewrite_layers rnd d st [] = Inr st"
| "rewrite_layers rnd d st (i # is) =
     (case rewrite_layer rnd d st i of
        Inl e \<Rightarrow> Inl e
      | Inr st' \<Rightarrow> rewrite_layers rnd d st' is)"

text \<open>
  \<open>optimize_cuda_mace\<close> takes a reference to a model object and returns a reference. The
  mutations of the object are written back to the heap under the reference it was given.
\<close>

definition optimize_cuda_mace ::
  "(dtype \<Rightarrow> real \<Rightarrow> real) \<Rightarrow> world \<Rightarrow> nat \<Rightarrow> py_error + (world \<times> nat)" where
  "optimize_cuda_mace rnd w model_ref =
     (let model = models w ! model_ref;
          ts = freeze (parameters model) (tensors w)
      in bind_err (get_model_dtype ts model)
        (\<lambda>d. let n_layers = nat (num_interactions model);
                 sh_irreps = Irreps_spherical_harmonics 3;
                 model1 = model\<lparr>spherical_harmonics :=
                            SphericalHarmonics sh_irreps True ''component'' ''opt''\<rparr>;
                 num_elements = num_irreps (irreps_in (node_embedding model1))
             in bind_err (rewrite_layers rnd d (ts, model1) [0..<n_layers])
                  (\<lambda>(ts', model').
                     Inr (w\<lparr>models := (models w)[model_ref := model'], tensors := ts'\<rparr>,
                          model_ref))))"

text \<open>Layer \<open>i\<close> of the model has been rewritten: both blocks hold the replacements.\<close>

definition layer_optimized :: "MACE \<Rightarrow> nat \<Rightarrow> bool" where
  "layer_optimized m i =
     (i < length (interactions m) \<and> i < length (products m)
      \<and> (case interactions m ! i of Optimized _ \<Rightarrow> True | Generic _ \<Rightarrow> False)
      \<and> (case products m ! i of OptimizedP _ \<Rightarrow> True | GenericP _ \<Rightarrow> False))"

section \<open>The benchmark harness\<close>

text \<open>
  The collaborators of \<open>benchmark\<close> are external: reading a trajectory with ase, building
  and replicating a bulk crystal, and the timing of the forward pass (lines 234 to 258:
  configurations, data loader, batch on the device, 500 timed runs), which returns the
  lines it prints. \<open>'a\<close> is the type of an \<open>ase.Atoms\<close> object.
\<close>

record 'a bench_env =
  ase_io_read :: "string \<Rightarrow> py_error + 'a list"
  build_bulk :: "string \<Rightarrow> string \<Rightarrow> real \<Rightarrow> bool \<Rightarrow> 'a"
  atoms_repeat :: "'a \<Rightarrow> nat \<times> nat \<times> nat \<Rightarrow> 'a"
  atoms_len :: "'a \<Rightarrow> nat"
  time_model :: "MACE \<times> store \<Rightarrow> 'a list \<Rightarrow> string \<Rightarrow> py_error + string list"

text \<open>\<open>benchmark\<close> returns the lines printed, or raises.\<close>

definition benchmark ::
  "'a bench_env \<Rightarrow> MACE \<times> store \<Rightarrow> string \<Rightarrow> string \<Rightarrow> py_error + string list" where
  "benchmark env model benchmark_file name =
     (case ase_io_read env benchmark_file of
        Inr atoms_list \<Rightarrow> time_model env model atoms_list name
      | Inl e \<Rightarrow>
          if is_Exception e then
            (let out1 = ''Could not read file '' @ benchmark_file;
                 atoms = build_bulk env ''C'' ''diamond'' (3567 / 1000) True;
                 atoms_list = [atoms_repeat env atoms (10, 10, 10)];
                 out2 = ''Number of atoms '' @ str_nat (atoms_len env (hd atoms_list))
             in bind_err (time_model env model atoms_list name)
                  (\<lambda>out. Inr ([out1, out2] @ out)))
          else Inl e)"

section \<open>The main driver\<close>

text \<open>Python's \<open>s.split(sep)\<close> for a one-character separator, and \<open>sep.join(parts)\<close>.\<close>

fun split_str :: "char \<Rightarrow> string \<Rightarrow> string list" where
  "split_str sep [] = [[]]"
| "split_str sep (c # cs) =
     (if c = sep then [] # split_str sep cs
      else (case split_str sep cs of
              [] \<Rightarrow> [[c]]
            | w # ws \<Rightarrow> (c # w) # ws))"

fun join_str :: "string \<Rightarrow> string list \<Rightarrow> string" where
  "join_str sep [] = []"
| "join_str sep [w] = w"
| "join_str sep (w # ws) = w @ sep @ join_str sep ws"

text \<open>Lines 273 and 274: where the optimized model is saved.\<close>

definition model_opt_path :: "string \<Rightarrow> string \<Rightarrow> string" where
  "model_opt_path model_arg output_arg =
     (let model_dir = join_str ''/'' (butlast (split_str CHR ''/'' model_arg))
      in model_dir @ ''/'' @ output_arg)"

text \<open>
  The parsed command line. \<open>--model\<close> has no default: it is \<open>None\<close> when the flag is
  absent.
\<close>

record args =
  a_model :: "string option"
  a_output :: string
  a_dtype :: string
  a_benchmark :: bool
  a_benchmark_file :: string

text \<open>
  The collaborators of \<open>main\<close>: the torch set-up, loading a model and moving it to the
  device, and saving. \<open>main\<close> returns the files it saved and the lines it printed.
\<close>

record 'a main_env =
  set_default_dtype :: "string \<Rightarrow> py_error + unit"
  init_device :: "string \<Rightarrow> py_error + unit"
  torch_load :: "string option \<Rightarrow> py_error + MACE \<times> store"
  torch_save :: "MACE \<times> store \<Rightarrow> string \<Rightarrow> py_error + unit"
  bench :: "'a bench_env"

definition main ::
  "(dtype \<Rightarrow> real \<Rightarrow> real) \<Rightarrow> 'a main_env \<Rightarrow> args \<Rightarrow>
   py_error + ((string \<times> MACE \<times> store) list \<times> string list)" where
  "main rnd env ar =
     bind_err (set_default_dtype env (a_dtype ar)) (\<lambda>_.
     bind_err (init_device env ''cuda'') (\<lambda>_.
     bind_err (torch_load env (a_model ar)) (\<lambda>(model, ts).
     bind_err (optimize_cuda_mace rnd \<lparr>models = [model], tensors = ts\<rparr> 0) (\<lambda>(w, model_opt).
     bind_err (case a_model ar of
                 None \<Rightarrow> Inl AttributeError
               | Some path \<Rightarrow> Inr (model_opt_path path (a_output ar))) (\<lambda>opt_path.
     let saved = (models w ! model_opt, tensors w) in
     bind_err (torch_save env saved opt_path) (\<lambda>_.
     if a_benchmark ar then
       bind_err (benchmark (bench env) saved (a_benchmark_file ar) ''opt'') (\<lambda>out1.
       bind_err (torch_load env (a_model ar)) (\<lambda>orig.
       bind_err (benchmark (bench env) orig (a_benchmark_file ar) ''orig'') (\<lambda>out2.
       Inr ([(opt_path, saved)], out1 @ out2))))
     else Inr ([(opt_path, saved)], [])))))))"

section \<open>Concrete inputs\<close>

text \<open>
  A small store, layers and tensors on which the definitions are evaluated below. The
  example kernel returns, for every node, the node's type index and a one, in the
  shape \<open>[nodes, 2, 1]\<close>.
\<close>

definition example_store :: store where
  "example_store =
     [\<lparr>t_data = \<lparr>shape = [4], data = [1, 2, 3, 4]\<rparr>, t_dtype = Float32, requires_grad = True\<rparr>,
      \<lparr>t_data = \<lparr>shape = [3], data = [1, 2, 3]\<rparr>, t_dtype = Float32, requires_grad = True\<rparr>,
      \<lparr>t_data = \<lparr>shape = [2], data = [5, 6]\<rparr>, t_dtype = Float64, requires_grad = True\<rparr>,
      \<lparr>t_data = \<lparr>shape = [1], data = [7]\<rparr>, t_dtype = Float64, requires_grad = True\<rparr>,
      \<lparr>t_data = \<lparr>shape = [1], data = [8]\<rparr>, t_dtype = Float32, requires_grad = True\<rparr>]"

definition example_linear :: e3nn_linear where
  "example_linear =
     \<lparr>irreps_in = [(2, (0, 1))], irreps_out = [(2, (0, 1))], instructions = [], weight = 0\<rparr>"

definition example_bad_linear :: e3nn_linear where
  "example_bad_linear =
     \<lparr>irreps_in = [(2, (0, 1))], irreps_out = [(2, (0, 1))], instructions = [], weight = 1\<rparr>"

definition example_matmul :: linear_matmul where
  "example_matmul =
     \<lparr>weights = \<lparr>shape = [2, 2], data = [1 / sqrt 2, 2 / sqrt 2, 3 / sqrt 2, 4 / sqrt 2]\<rparr>\<rparr>"


definition example_kernel ::
  "CUDAContraction \<Rightarrow> real tensor \<Rightarrow> 32 word tensor \<Rightarrow> py_error + real tensor" where
  "example_kernel cc x yi =
     Inr \<lparr>shape = shape yi @ [2, 1], data = concat (map (\<lambda>t. [real (unat t), 1]) (data yi))\<rparr>"

definition example_wrapper :: SymmetricContractionWrapper where
  "example_wrapper =
     \<lparr>symmetric_contractions =
        \<lparr>cc_coupling_irreps = [(1, (0, 1))], cc_irreps_out = [(2, (0, 1))],
         cc_all_weights = Map.empty, nthreadX = 32, nthreadY = 4, nthreadZ = 1,
         cc_dtype = Float32\<rparr>\<rparr>"

definition example_x1 :: "real tensor" where
  "example_x1 = \<lparr>shape = [1, 2, 1], data = [1, 2]\<rparr>"

definition example_x2 :: "real tensor" where
  "example_x2 = \<lparr>shape = [2, 2, 1], data = [1, 2, 3, 4]\<rparr>"

definition example_y1 :: "real tensor" where
  "example_y1 = \<lparr>shape = [1, 3], data = [0, 1, 0]\<rparr>"

definition example_y2 :: "real tensor" where
  "example_y2 = \<lparr>shape = [2, 3], data = [0, 1, 0, 0, 0, 1]\<rparr>"

definition example_conv_tp_weights :: "real tensor \<Rightarrow> py_error + real tensor" where
  "example_conv_tp_weights edge_feats =
     Inr \<lparr>shape = [hd (shape edge_feats), 4], data = replicate (hd (shape edge_feats) * 4) 1\<rparr>"

definition example_skip_tp :: "real tensor \<Rightarrow> real tensor \<Rightarrow> py_error + real tensor" where
  "example_skip_tp node_feats node_attrs = Inr node_feats"

definition example_block :: generic_block where
  "example_block =
     \<lparr>class_name = ''RealAgnosticResidualInteractionBlock'', linear_up = example_linear,
      conv_tp_weights = example_conv_tp_weights, linear_layer = example_linear,
      skip_tp = example_skip_tp, avg_num_neighbors = 2, tp = (), forward = ()\<rparr>"

definition example_optimized_block :: optimized_block where
  "example_optimized_block =
     \<lparr>class_name = ''RealAgnosticResidualInteractionBlock'', linear_up = example_matmul,
      conv_tp_weights = example_conv_tp_weights, linear_layer = linear_to_cuda example_linear,
      skip_tp = example_skip_tp, avg_num_neighbors = 2, tp = InvariantMessagePassingTP,
      forward = invariant_residual_interaction_forward_bound\<rparr>"





definition example_rnd :: "dtype \<Rightarrow> real \<Rightarrow> real" where
  "example_rnd d v = v"

definition example_product :: generic_product where
  "example_product =
     \<lparr>p_symmetric_contractions =
        \<lparr>sc_irreps_in = [(2, (0, 1))], sc_irreps_out = [(2, (0, 1))],
         contractions = [\<lparr>weights_max = 2, c_weights = [3, 4]\<rparr>]\<rparr>,
      p_linear = example_linear\<rparr>"

definition example_copies :: store where
  "example_copies =
     [\<lparr>t_data = \<lparr>shape = [2], data = [5, 6]\<rparr>, t_dtype = Float32, requires_grad = False\<rparr>,
      \<lparr>t_data = \<lparr>shape = [1], data = [7]\<rparr>, t_dtype = Float32, requires_grad = False\<rparr>,
      \<lparr>t_data = \<lparr>shape = [1], data = [8]\<rparr>, t_dtype = Float32, requires_grad = False\<rparr>]"

definition example_optimized_product :: optimized_product where
  "example_optimized_product =
     \<lparr>p_symmetric_contractions =
        \<lparr>symmetric_contractions =
           \<lparr>cc_coupling_irreps = [(1, (0, 1))], cc_irreps_out = [(2, (0, 1))],
            cc_all_weights = [''0'' \<mapsto> [3 \<mapsto> 5, 2 \<mapsto> 6, 1 \<mapsto> 7]],
            nthreadX = 32, nthreadY = 4, nthreadZ = 1, cc_dtype = Float32\<rparr>\<rparr>,
      p_linear = example_matmul\<rparr>"

definition example_frozen_store :: store where
  "example_frozen_store =
     [\<lparr>t_data = \<lparr>shape = [4], data = [1, 2, 3, 4]\<rparr>, t_dtype = Float32, requires_grad = False\<rparr>,
      \<lparr>t_data = \<lparr>shape = [3], data = [1, 2, 3]\<rparr>, t_dtype = Float32, requires_grad = True\<rparr>,
      \<lparr>t_data = \<lparr>shape = [2], data = [5, 6]\<rparr>, t_dtype = Float64, requires_grad = False\<rparr>,
      \<lparr>t_data = \<lparr>shape = [1], data = [7]\<rparr>, t_dtype = Float64, requires_grad = False\<rparr>,
      \<lparr>t_data = \<lparr>shape = [1], data = [8]\<rparr>, t_dtype = Float32, requires_grad = False\<rparr>]"

definition example_model :: MACE where
  "example_model =
     \<lparr>parameters = [0, 2, 3, 4], num_interactions = 1,
      spherical_harmonics = OriginalSphericalHarmonics, node_embedding = example_linear,
      interactions = [Generic example_block], products = [GenericP example_product]\<rparr>"

definition example_optimized_model :: MACE where
  "example_optimized_model =
     \<lparr>parameters = [0, 2, 3, 4], num_interactions = 1,
      spherical_harmonics =
        SphericalHarmonics [(1, (0, 1)), (1, (1, - 1)), (1, (2, 1)), (1, (3, - 1))]
          True ''component'' ''opt'',
      node_embedding = example_linear,
      interactions = [Optimized example_optimized_block],
      products = [OptimizedP example_optimized_product]\<rparr>"

definition example_world :: world where
  "example_world = \<lparr>models = [example_model], tensors = example_store\<rparr>"

definition example_optimized_world :: world where
  "example_optimized_world =
     \<lparr>models = [example_optimized_model], tensors = example_frozen_store @ example_copies\<rparr>"

definition example_bench :: "nat bench_env" where
  "example_bench =
     \<lparr>ase_io_read = (\<lambda>file. Inl OSError),
      build_bulk = (\<lambda>name structure a cubic. 8),
      atoms_repeat = (\<lambda>atoms rep. atoms * fst rep * fst (snd rep) * snd (snd rep)),
      atoms_len = (\<lambda>atoms. atoms),
      time_model = (\<lambda>model atoms_list name. Inr [name])\<rparr>"

definition example_main_env :: "nat main_env" where
  "example_main_env =
     \<lparr>set_default_dtype = (\<lambda>name. Inr ()),
      init_device = (\<lambda>name. Inr ()),
      torch_load = (\<lambda>path. Inr (example_model, example_store)),
      torch_save = (\<lambda>model path. Inr ()),
      bench = example_bench\<rparr>"

definition example_args :: args where
  "example_args =
     \<lparr>a_model = Some ''model.pt'', a_output = ''optimized_model.pt'', a_dtype = ''float32'',
      a_benchmark = False, a_benchmark_file = ''''\<rparr>"

section \<open>Helper lemmas\<close>

lemma argmax_from_inv:
  fixes pre :: "'a::linorder list"
  assumes "bi < length pre" "best = pre ! bi"
    and "\<forall>j<length pre. pre ! j \<le> best" and "\<forall>j<bi. pre ! j < best"
  shows "argmax_from best bi (length pre) vs < length (pre @ vs)
     \<and> (\<forall>j<length (pre @ vs). (pre @ vs) ! j \<le> (pre @ vs) ! argmax_from best bi (length pre) vs)
     \<and> (\<forall>j<argmax_from best bi (length pre) vs.
           (pre @ vs) ! j < (pre @ vs) ! argmax_from best bi (length pre) vs)"
  using assms
proof (induction vs arbitrary: pre best bi)
  case Nil
  then show ?case by simp
next
  case (Cons v vs)
  show ?case
  proof (cases "best < v")
    case True
    have a: "length pre < length (pre @ [v])" by simp
    have b: "v = (pre @ [v]) ! length pre" by simp
    have c: "\<forall>j<length (pre @ [v]). (pre @ [v]) ! j \<le> v"
      using Cons.prems True by (auto simp: nth_append less_Suc_eq intro: less_imp_le order_trans)
    have d: "\<forall>j<length pre. (pre @ [v]) ! j < v"
      using Cons.prems True by (auto simp: nth_append intro: le_less_trans)
    from Cons.IH[OF a b c d] True show ?thesis by simp
  next
    case False
    have a: "bi < length (pre @ [v])" using Cons.prems by simp
    have b: "best = (pre @ [v]) ! bi" using Cons.prems by (simp add: nth_append)
    have c: "\<forall>j<length (pre @ [v]). (pre @ [v]) ! j \<le> best"
      using Cons.prems False by (auto simp: nth_append less_Suc_eq)
    have d: "\<forall>j<bi. (pre @ [v]) ! j < best"
      using Cons.prems by (auto simp: nth_append)
    from Cons.IH[OF a b c d] False show ?thesis by simp
  qed
qed

text \<open>
  The model of arg-max picks a position of the row, holding a maximal element, and the
  first such position.
\<close>

lemma argmax_row_first_max:
  fixes vs :: "'a::linorder list"
  assumes "vs \<noteq> []"
  shows "argmax_row vs < length vs"
    and "\<forall>j<length vs. vs ! j \<le> vs ! argmax_row vs"
    and "\<forall>j<argmax_row vs. vs ! j < vs ! argmax_row vs"
proof -
  obtain v rest where vs: "vs = v # rest" using assms by (cases vs) auto
  have "argmax_from v 0 (length [v]) rest < length ([v] @ rest)
     \<and> (\<forall>j<length ([v] @ rest). ([v] @ rest) ! j \<le> ([v] @ rest) ! argmax_from v 0 (length [v]) rest)
     \<and> (\<forall>j<argmax_from v 0 (length [v]) rest.
           ([v] @ rest) ! j < ([v] @ rest) ! argmax_from v 0 (length [v]) rest)"
    by (rule argmax_from_inv) auto
  then show "argmax_row vs < length vs"
    and "\<forall>j<length vs. vs ! j \<le> vs ! argmax_row vs"
    and "\<forall>j<argmax_row vs. vs ! j < vs ! argmax_row vs"
    by (simp_all add: vs argmax_row_def)
qed







lemma argmax_y1: "argmax_last example_y1 = Inr \<lparr>shape = [1], data = [1]\<rparr>"
  by (simp add: argmax_last_def example_y1_def rows_of_def row_at_def argmax_row_def)

lemma argmax_y2: "argmax_last example_y2 = Inr \<lparr>shape = [2], data = [1, 2]\<rparr>"
  by (simp add: argmax_last_def example_y2_def rows_of_def row_at_def argmax_row_def
      upt_conv_Cons)

lemma bind_err_InrE:
  assumes "bind_err r k = Inr v"
  obtains x where "r = Inr x" and "k x = Inr v"
  using assms by (cases r) (auto simp: bind_err_def)

















lemma str_nat_0: "str_nat 0 = ''0''"
  by code_simp






lemma freeze_length: "length (freeze ps ts) = length ts"
  by (induction ps arbitrary: ts) simp_all

lemma freeze_nth:
  "a < length ts \<Longrightarrow>
   freeze ps ts ! a = (if a \<in> set ps then (ts ! a)\<lparr>requires_grad := False\<rparr> else ts ! a)"
proof (induction ps arbitrary: ts)
  case Nil
  then show ?case by simp
next
  case (Cons p ps)
  let ?ts1 = "ts[p := (ts ! p)\<lparr>requires_grad := False\<rparr>]"
  from Cons.prems have "a < length ?ts1" by simp
  from Cons.IH[OF this]
  have ih: "freeze ps ?ts1 ! a
              = (if a \<in> set ps then (?ts1 ! a)\<lparr>requires_grad := False\<rparr> else ?ts1 ! a)" .
  show ?case
  proof (cases "a = p")
    case True
    with Cons.prems ih show ?thesis by simp
  next
    case False
    with Cons.prems ih show ?thesis by simp
  qed
qed

lemma extract_weights_grows:
  "extract_weights rnd d cs j ts0 aw0 = Inr (ts', aw) \<Longrightarrow> \<exists>new. ts' = ts0 @ new"
proof (induction cs arbitrary: j ts0 aw0)
  case Nil
  then show ?case by simp
next
  case (Cons c cs)
  from Cons.prems obtain ts1 aw1 where
    "extract_weights rnd d cs (Suc j) ts1 aw1 = Inr (ts', aw)" and "\<exists>new. ts1 = ts0 @ new"
    by (auto simp: Let_def detach_clone_type_def alloc_def split: if_splits)
  with Cons.IH show ?case by fastforce
qed

lemma rewrite_product_grows:
  assumes "rewrite_product rnd d ts pb = Inr (ts', q)"
  shows "\<exists>new. ts' = ts @ new"
  using assms
  by (cases pb)
     (auto simp: rewrite_product_def Let_def extract_all_weights_def
           elim!: bind_err_InrE dest: extract_weights_grows)

lemma rewrite_layer_InrD:
  assumes "rewrite_layer rnd d (ts, m) i = Inr (ts', m')"
  shows "\<exists>b q. i < length (interactions m) \<and> i < length (products m)
      \<and> rewrite_interaction ts (interactions m ! i) = Inr b
      \<and> rewrite_product rnd d ts (products m ! i) = Inr (ts', q)
      \<and> m' = m\<lparr>interactions := (interactions m)[i := Optimized b],
                products := (products m)[i := OptimizedP q]\<rparr>"
  using assms
  by (auto simp: rewrite_layer_def Let_def split: if_splits elim!: bind_err_InrE)

lemma rewrite_layer_step:
  assumes "rewrite_layer rnd d (ts, m) i = Inr (ts', m')"
  shows "layer_optimized m' i"
    and "layer_optimized m k \<Longrightarrow> layer_optimized m' k"
    and "\<exists>new. ts' = ts @ new"
    and "parameters m' = parameters m" and "num_interactions m' = num_interactions m"
    and "spherical_harmonics m' = spherical_harmonics m"
proof -
  from rewrite_layer_InrD[OF assms] obtain b q where h:
    "i < length (interactions m)" "i < length (products m)"
    "rewrite_product rnd d ts (products m ! i) = Inr (ts', q)"
    "m' = m\<lparr>interactions := (interactions m)[i := Optimized b],
             products := (products m)[i := OptimizedP q]\<rparr>"
    by blast
  from h show "layer_optimized m' i" by (simp add: layer_optimized_def)
  from h show "layer_optimized m k \<Longrightarrow> layer_optimized m' k"
    by (auto simp: layer_optimized_def nth_list_update split: interaction.splits product.splits)
  from h(3) show "\<exists>new. ts' = ts @ new" by (rule rewrite_product_grows)
  from h(4) show "parameters m' = parameters m" "num_interactions m' = num_interactions m"
    "spherical_harmonics m' = spherical_harmonics m" by simp_all
qed

lemma rewrite_layers_inv:
  assumes "rewrite_layers rnd d (ts, m) is = Inr (ts', m')"
  shows "(\<forall>i\<in>set is. layer_optimized m' i)
       \<and> (\<forall>k. layer_optimized m k \<longrightarrow> layer_optimized m' k)
       \<and> (\<exists>new. ts' = ts @ new)
       \<and> parameters m' = parameters m \<and> num_interactions m' = num_interactions m
       \<and> spherical_harmonics m' = spherical_harmonics m"
  using assms
proof (induction "is" arbitrary: ts m)
  case Nil
  then show ?case by simp
next
  case (Cons i "is")
  from Cons.prems obtain ts1 m1 where
    s1: "rewrite_layer rnd d (ts, m) i = Inr (ts1, m1)"
    and s2: "rewrite_layers rnd d (ts1, m1) is = Inr (ts', m')"
    by (auto split: sum.splits)
  note st = rewrite_layer_step[OF s1]
  note ih = Cons.IH[OF s2]
  from st(3) ih obtain new1 new2 where "ts1 = ts @ new1" "ts' = ts1 @ new2" by blast
  then have g: "\<exists>new. ts' = ts @ new" by simp
  from st(1) ih have a: "layer_optimized m' i" by blast
  from st(2) ih have b: "\<forall>k. layer_optimized m k \<longrightarrow> layer_optimized m' k" by blast
  from a b g ih st(4-6) show ?case by simp
qed

lemma example_freeze:
  "freeze (parameters example_model) example_store = example_frozen_store"
  by (simp add: example_model_def example_store_def example_frozen_store_def)

lemma example_dtype: "get_model_dtype example_frozen_store example_model = Inr Float32"
  by (simp add: get_model_dtype_def example_model_def example_frozen_store_def)

lemma example_frozen_init:
  "linear_matmul_init example_frozen_store example_linear = Inr example_matmul"
  "linear_matmul_init (example_frozen_store @ example_copies) example_linear = Inr example_matmul"
  by (simp_all add: linear_matmul_init_def example_frozen_store_def example_linear_def
      num_irreps_def reshape_def numel_def bind_err_def tensor_div_def powr_half_sqrt
      example_matmul_def)

lemma example_frozen_rewrite:
  "rewrite_interaction example_frozen_store (Generic example_block) = Inr example_optimized_block"
  by (simp add: rewrite_interaction_def example_block_def example_frozen_init bind_err_def
      example_optimized_block_def)

lemma example_frozen_extract:
  "extract_all_weights example_rnd Float32 example_frozen_store
     (p_symmetric_contractions example_product)
   = Inr (example_frozen_store @ example_copies, [''0'' \<mapsto> [3 \<mapsto> 5, 2 \<mapsto> 6, 1 \<mapsto> 7]])"
  by (simp add: extract_all_weights_def example_product_def detach_clone_type_def alloc_def
      tensor_type_def detach_def example_frozen_store_def example_rnd_def example_copies_def
      str_nat_0 eval_nat_numeral)

lemma example_frozen_rewrite_product:
  "rewrite_product example_rnd Float32 example_frozen_store (GenericP example_product)
   = Inr (example_frozen_store @ example_copies, example_optimized_product)"
proof -
  have sc: "sc_irreps_in (p_symmetric_contractions example_product) = [(2, (0, 1))]"
    "sc_irreps_out (p_symmetric_contractions example_product) = [(2, (0, 1))]"
    "p_linear example_product = example_linear"
    by (simp_all add: example_product_def)
  show ?thesis
    by (simp add: rewrite_product_def Let_def example_frozen_extract bind_err_def
        example_frozen_init example_optimized_product_def sc)
qed

lemma example_sh:
  "Irreps_spherical_harmonics 3 = [(1, (0, 1)), (1, (1, - 1)), (1, (2, 1)), (1, (3, - 1))]"
  by (simp add: Irreps_spherical_harmonics_def upt_conv_Cons eval_nat_numeral)

lemma example_optimize:
  "optimize_cuda_mace example_rnd example_world 0 = Inr (example_optimized_world, 0)"
proof -
  have m: "models example_world ! 0 = example_model" "tensors example_world = example_store"
    by (simp_all add: example_world_def)
  have f: "interactions example_model = [Generic example_block]"
    "products example_model = [GenericP example_product]"
    "num_interactions example_model = 1"
    by (simp_all add: example_model_def)
  have layer: "rewrite_layer example_rnd Float32
      (example_frozen_store,
       example_model\<lparr>spherical_harmonics :=
          SphericalHarmonics (Irreps_spherical_harmonics 3) True ''component'' ''opt''\<rparr>) 0
     = Inr (example_frozen_store @ example_copies, example_optimized_model)"
    by (simp add: rewrite_layer_def Let_def f example_frozen_rewrite bind_err_def
        example_frozen_rewrite_product example_sh)
       (simp add: example_model_def example_optimized_model_def)
  show ?thesis
    by (simp add: optimize_cuda_mace_def Let_def m example_freeze example_dtype bind_err_def f
        layer)
       (simp add: example_world_def example_optimized_world_def)
qed

lemma digit_chars: "digit_char 0 = CHR ''0''" "digit_char 8 = CHR ''8''"
  by code_simp+

lemma str_nat_8000: "str_nat 8000 = ''8000''"
  by (simp add: str_nat.simps[of 8000] str_nat.simps[of 800] str_nat.simps[of 80]
      str_nat.simps[of 8] digit_chars)

lemma example_bench_simps:
  "ase_io_read example_bench = (\<lambda>file. Inl OSError)"
  "build_bulk example_bench = (\<lambda>name structure a cubic. 8)"
  "atoms_repeat example_bench = (\<lambda>atoms rep. atoms * fst rep * fst (snd rep) * snd (snd rep))"
  "atoms_len example_bench = (\<lambda>atoms. atoms)"
  "time_model example_bench = (\<lambda>model atoms_list name. Inr [name])"
  by (simp_all only: example_bench_def bench_env.select_convs)

lemma example_atoms: 
  "atoms_repeat example_bench (build_bulk example_bench ''C'' ''diamond'' (3567 / 1000) True)
     (10, 10, 10) = 8000"
  by (simp add: example_bench_simps)

lemma example_time:
  "time_model example_bench (example_model, example_store) [8000] ''opt'' = Inr [''opt'']"
  by (simp only: example_bench_simps)

lemma example_path: "model_opt_path ''model.pt'' ''optimized_model.pt'' = ''/optimized_model.pt''"
  by (simp add: model_opt_path_def)

lemma split_str_nonempty: "split_str sep s \<noteq> []"
  by (induction s) (auto split: list.splits)

lemma split_str_append:
  "split_str sep (d @ sep # f) = split_str sep d @ split_str sep f"
proof (induction d)
  case Nil
  then show ?case by simp
next
  case (Cons c d)
  obtain w ws where ws: "split_str sep d = w # ws"
    using split_str_nonempty[of sep d] by (cases "split_str sep d") auto
  with Cons show ?case by simp
qed

lemma split_str_no_sep: "sep \<notin> set f \<Longrightarrow> split_str sep f = [f]"
  by (induction f) auto

lemma join_split: "join_str [sep] (split_str sep s) = s"
proof (induction s)
  case Nil
  then show ?case by simp
next
  case (Cons c s)
  obtain w ws where ws: "split_str sep s = w # ws"
    using split_str_nonempty[of sep s] by (cases "split_str sep s") auto
  show ?case
  proof (cases "c = sep")
    case True
    with Cons ws show ?thesis by simp
  next
    case False
    with Cons ws show ?thesis by (cases ws) auto
  qed
qed

lemma model_opt_path_with_directory:
  assumes "CHR ''/'' \<notin> set f"
  shows "model_opt_path (d @ ''/'' @ f) out = d @ ''/'' @ out"
proof -
  have "split_str CHR ''/'' (d @ ''/'' @ f) = split_str CHR ''/'' d @ [f]"
    using assms by (simp add: split_str_append split_str_no_sep)
  then have "butlast (split_str CHR ''/'' (d @ ''/'' @ f)) = split_str CHR ''/'' d"
    by simp
  then show ?thesis
    using join_split[of "CHR ''/''" d] by (simp add: model_opt_path_def)
qed

section \<open>C1: the linear replacement computes the scaled matrix product\<close>



section \<open>C2: what the contraction wrapper removes from the kernel's result\<close>

text \<open>
  C2, as amended. For every input pair \<open>(x, y)\<close> on which the wrapper's forward returns,
  it has converted \<open>y\<close> to an integer type index by arg-max along the last axis, called
  the contraction kernel with that index cast to 32 bits, and removed every axis of size
  1 from the kernel's result, whatever its position; the elements are unchanged.
\<close>

theorem forward_squeezes_every_unit_axis:
  assumes "SymmetricContractionWrapper_forward call self x y = Inr r"
  shows "\<exists>yi out. argmax_last y = Inr yi
           \<and> call (symmetric_contractions self) x (int_cast yi) = Inr out
           \<and> shape r = filter (\<lambda>d. d \<noteq> 1) (shape out) \<and> data r = data out"
  using assms
  by (auto simp: SymmetricContractionWrapper_forward_def bind_err_def squeeze_def
           split: sum.splits)

theorem forward_squeezes_every_unit_axis_witness:
  "SymmetricContractionWrapper_forward example_kernel example_wrapper example_x1 example_y1
     = Inr \<lparr>shape = [2], data = [1, 1]\<rparr>
   \<and> (\<exists>yi out. argmax_last example_y1 = Inr yi
         \<and> example_kernel (symmetric_contractions example_wrapper) example_x1 (int_cast yi) = Inr out
         \<and> shape \<lparr>shape = [2], data = [1, 1::real]\<rparr> = filter (\<lambda>d. d \<noteq> 1) (shape out)
         \<and> data \<lparr>shape = [2], data = [1, 1::real]\<rparr> = data out)"
proof -
  have h: "SymmetricContractionWrapper_forward example_kernel example_wrapper example_x1 example_y1
     = Inr \<lparr>shape = [2], data = [1, 1]\<rparr>"
    by (simp add: SymmetricContractionWrapper_forward_def bind_err_def argmax_y1 int_cast_def
        example_kernel_def squeeze_def)
  from forward_squeezes_every_unit_axis[OF h] h show ?thesis by simp
qed

text \<open>
  C2 as stated fails for a single node: the kernel returns shape \<open>[1, 2, 1]\<close>, removing
  only the trailing axis would give \<open>[1, 2]\<close>, and the forward returns \<open>[2]\<close>.
\<close>

theorem forward_trailing_only_counterexample:
  "SymmetricContractionWrapper_forward example_kernel example_wrapper example_x1 example_y1
     = Inr \<lparr>shape = [2], data = [1, 1]\<rparr>
   \<and> example_kernel (symmetric_contractions example_wrapper) example_x1
        \<lparr>shape = [1], data = [1]\<rparr> = Inr \<lparr>shape = [1, 2, 1], data = [1, 1]\<rparr>
   \<and> squeeze_trailing \<lparr>shape = [1, 2, 1], data = [1, 1::real]\<rparr>
        = \<lparr>shape = [1, 2], data = [1, 1]\<rparr>"
  by (simp add: SymmetricContractionWrapper_forward_def bind_err_def argmax_y1 int_cast_def
        example_kernel_def squeeze_def squeeze_trailing_def)

section \<open>C3: which forward a block is bound to\<close>



section \<open>C4: what both rewritten forwards do on a call\<close>



section \<open>C5: a weight of the wrong size is refused at construction\<close>

text \<open>
  C5. When the element count of the layer's weight differs from
  \<open>num_channels_in * num_channels_out\<close>, constructing the \<open>linear_matmul\<close> raises (the
  \<open>RuntimeError\<close> of \<open>reshape\<close>): no module is built, so no forward can run on it, and the
  weight is neither truncated nor padded.
\<close>

theorem linear_matmul_init_fails_fast:
  assumes "numel (t_data (ts ! weight l)) \<noteq> num_irreps (irreps_in l) * num_irreps (irreps_out l)"
  shows "linear_matmul_init ts l = Inl RuntimeError"
  using assms by (simp add: linear_matmul_init_def reshape_def bind_err_def Let_def)

theorem linear_matmul_init_fails_fast_witness:
  "numel (t_data (example_store ! weight example_bad_linear))
     \<noteq> num_irreps (irreps_in example_bad_linear) * num_irreps (irreps_out example_bad_linear)
   \<and> linear_matmul_init example_store example_bad_linear = Inl RuntimeError"
proof -
  have h: "numel (t_data (example_store ! weight example_bad_linear))
     \<noteq> num_irreps (irreps_in example_bad_linear) * num_irreps (irreps_out example_bad_linear)"
    by (simp add: example_store_def example_bad_linear_def numel_def num_irreps_def)
  from linear_matmul_init_fails_fast[OF h] h show ?thesis by simp
qed

section \<open>C6: optimize_cuda_mace freezes first and returns the object it was given\<close>

text \<open>
  C6. When \<open>optimize_cuda_mace\<close> returns, it returns the reference it was given; the
  heap holds the mutated model under that reference and no other model object changed.
  Every parameter of the model has \<open>requires_grad = False\<close> in the store from which the
  layer rewriting starts (the freeze comes before any replacement) and still has it at
  the end, and every layer below \<open>num_interactions\<close> has been rewritten.
\<close>

theorem optimize_cuda_mace_freezes_and_returns_same_object:
  assumes opt: "optimize_cuda_mace rnd w model_ref = Inr (w', r)"
    and ref: "model_ref < length (models w)"
    and val: "\<forall>a\<in>set (parameters (models w ! model_ref)). a < length (tensors w)"
  shows "r = model_ref
       \<and> length (models w') = length (models w)
       \<and> (\<forall>k. k \<noteq> model_ref \<longrightarrow> models w' ! k = models w ! k)
       \<and> (\<forall>a\<in>set (parameters (models w ! model_ref)).
             \<not> requires_grad (freeze (parameters (models w ! model_ref)) (tensors w) ! a))
       \<and> (\<exists>d. rewrite_layers rnd d
                 (freeze (parameters (models w ! model_ref)) (tensors w),
                  (models w ! model_ref)\<lparr>spherical_harmonics :=
                     SphericalHarmonics (Irreps_spherical_harmonics 3) True ''component'' ''opt''\<rparr>)
                 [0..<nat (num_interactions (models w ! model_ref))]
               = Inr (tensors w', models w' ! model_ref))
       \<and> (\<forall>a\<in>set (parameters (models w ! model_ref)). \<not> requires_grad (tensors w' ! a))
       \<and> (\<forall>i<nat (num_interactions (models w ! model_ref)).
             layer_optimized (models w' ! model_ref) i)"
proof -
  define m where "m = models w ! model_ref"
  define ts where "ts = freeze (parameters m) (tensors w)"
  define m1 where "m1 = m\<lparr>spherical_harmonics :=
      SphericalHarmonics (Irreps_spherical_harmonics 3) True ''component'' ''opt''\<rparr>"
  from opt obtain d ts' m' where
    rl: "rewrite_layers rnd d (ts, m1) [0..<nat (num_interactions m)] = Inr (ts', m')"
    and w': "w' = w\<lparr>models := (models w)[model_ref := m'], tensors := ts'\<rparr>"
    and r: "r = model_ref"
    by (auto simp: optimize_cuda_mace_def Let_def m_def ts_def m1_def elim!: bind_err_InrE)
  note inv = rewrite_layers_inv[OF rl]
  have fr: "\<forall>a\<in>set (parameters m). \<not> requires_grad (ts ! a)"
    using val by (simp add: ts_def freeze_nth m_def)
  from inv obtain new where new: "ts' = ts @ new" by blast
  have len: "\<forall>a\<in>set (parameters m). a < length ts"
    using val by (simp add: ts_def freeze_length m_def)
  have fin: "\<forall>a\<in>set (parameters m). \<not> requires_grad (ts' ! a)"
    using fr len by (simp add: new nth_append)
  have mw: "models w' ! model_ref = m'" using ref by (simp add: w')
  have lay: "\<forall>i<nat (num_interactions m). layer_optimized m' i"
    using inv by simp
  have other: "\<forall>k. k \<noteq> model_ref \<longrightarrow> models w' ! k = models w ! k"
    by (simp add: w')
  have rl': "rewrite_layers rnd d (ts, m1) [0..<nat (num_interactions m)]
               = Inr (tensors w', models w' ! model_ref)"
    using rl mw by (simp add: w')
  show ?thesis
    using r other fr fin lay rl' mw
    unfolding m_def[symmetric] ts_def[symmetric] m1_def[symmetric]
    by (auto simp: w')
qed

theorem optimize_cuda_mace_freezes_and_returns_same_object_witness:
  "optimize_cuda_mace example_rnd example_world 0 = Inr (example_optimized_world, 0)
   \<and> 0 < length (models example_world)
   \<and> list_all (\<lambda>a. a < length (tensors example_world)) (parameters (models example_world ! 0))
   \<and> list_all (\<lambda>a. \<not> requires_grad (tensors example_optimized_world ! a))
        (parameters (models example_world ! 0))
   \<and> layer_optimized (models example_optimized_world ! 0) 0"
proof -
  have r: "0 < length (models example_world)" by (simp add: example_world_def)
  have v: "list_all (\<lambda>a. a < length (tensors example_world))
             (parameters (models example_world ! 0))"
    by (simp add: example_world_def example_model_def example_store_def)
  then have v': "\<forall>a\<in>set (parameters (models example_world ! 0)).
                   a < length (tensors example_world)"
    by (simp only: list_all_iff)
  have n: "(0::nat) < nat (num_interactions (models example_world ! 0))"
    by (simp add: example_world_def example_model_def)
  note opt = optimize_cuda_mace_freezes_and_returns_same_object[OF example_optimize r v']
  from opt have "\<forall>a\<in>set (parameters (models example_world ! 0)).
         \<not> requires_grad (tensors example_optimized_world ! a)"
    by blast
  then have f: "list_all (\<lambda>a. \<not> requires_grad (tensors example_optimized_world ! a))
        (parameters (models example_world ! 0))"
    by (simp only: list_all_iff)
  from opt have "\<forall>i<nat (num_interactions (models example_world ! 0)).
         layer_optimized (models example_optimized_world ! 0) i"
    by blast
  with n have l: "layer_optimized (models example_optimized_world ! 0) 0" by blast
  from example_optimize r v f l show ?thesis by (intro conjI)
qed

section \<open>C7: where main saves the optimized model\<close>

text \<open>
  C7 at the input \<open>--model model.pt\<close>, a model file named without a directory: line 273
  computes the empty string as the model's directory and line 274 prepends a slash, so
  \<open>main\<close> saves to \<open>/optimized_model.pt\<close>, in the root of the file system, and not in the
  directory that contains the input.
\<close>

theorem main_saves_bare_filename_in_root:
  "main example_rnd example_main_env example_args
     = Inr ([(''/optimized_model.pt'', example_optimized_model,
              example_frozen_store @ example_copies)], [])"
proof -
  have w: "\<lparr>models = [example_model], tensors = example_store\<rparr> = example_world"
    by (simp add: example_world_def)
  have env: "set_default_dtype example_main_env = (\<lambda>name. Inr ())"
    "init_device example_main_env = (\<lambda>name. Inr ())"
    "torch_load example_main_env = (\<lambda>path. Inr (example_model, example_store))"
    "torch_save example_main_env = (\<lambda>model path. Inr ())"
    by (simp_all only: example_main_env_def main_env.select_convs)
  have ar: "a_model example_args = Some ''model.pt''"
    "a_output example_args = ''optimized_model.pt''" "a_dtype example_args = ''float32''"
    "a_benchmark example_args = False"
    by (simp_all add: example_args_def)
  have ow: "models example_optimized_world ! 0 = example_optimized_model"
    "tensors example_optimized_world = example_frozen_store @ example_copies"
    by (simp_all add: example_optimized_world_def)
  show ?thesis
    unfolding main_def env ar bind_err_def
    by (simp only: sum.case prod.case option.case example_path Let_def w example_optimize ow
        if_False)
qed

section \<open>C8: an unreadable benchmark file is replaced by a synthetic workload\<close>

text \<open>
  C8. When reading the benchmark file raises an exception, \<open>benchmark\<close> does not
  propagate it: it prints that the file could not be read, builds a cubic diamond
  carbon cell, replicates it 10 x 10 x 10, prints the number of atoms and runs the timing
  on that single structure. It returns what the timing returns, after the two printed
  lines, and fails only if the timing itself fails.
\<close>

theorem benchmark_falls_back_on_read_failure:
  assumes "ase_io_read env benchmark_file = Inl e" and "is_Exception e"
  shows "(\<forall>out. time_model env model
                 [atoms_repeat env (build_bulk env ''C'' ''diamond'' (3567 / 1000) True)
                    (10, 10, 10)] name = Inr out \<longrightarrow>
            benchmark env model benchmark_file name
              = Inr ([''Could not read file '' @ benchmark_file,
                      ''Number of atoms '' @ str_nat (atoms_len env
                         (atoms_repeat env (build_bulk env ''C'' ''diamond'' (3567 / 1000) True)
                            (10, 10, 10)))] @ out))
       \<and> (\<forall>e'. time_model env model
                 [atoms_repeat env (build_bulk env ''C'' ''diamond'' (3567 / 1000) True)
                    (10, 10, 10)] name = Inl e' \<longrightarrow>
            benchmark env model benchmark_file name = Inl e')"
proof -
  let ?synth = "[atoms_repeat env (build_bulk env ''C'' ''diamond'' (3567 / 1000) True) (10, 10, 10)]"
  have b: "benchmark env model benchmark_file name =
      (case time_model env model ?synth name of
         Inl e' \<Rightarrow> Inl e'
       | Inr out \<Rightarrow> Inr ([''Could not read file '' @ benchmark_file,
                      ''Number of atoms '' @ str_nat (atoms_len env
                         (atoms_repeat env (build_bulk env ''C'' ''diamond'' (3567 / 1000) True)
                            (10, 10, 10)))] @ out))"
    unfolding benchmark_def bind_err_def Let_def assms(1)
    by (simp only: sum.case assms(2) if_True list.sel)
  show ?thesis
    unfolding b by (cases "time_model env model ?synth name") (simp_all only: sum.case sum.inject sum.distinct simp_thms)
qed

theorem benchmark_falls_back_on_read_failure_witness:
  "ase_io_read example_bench ''missing.xyz'' = Inl OSError \<and> is_Exception OSError
   \<and> benchmark example_bench (example_model, example_store) ''missing.xyz'' ''opt''
       = Inr [''Could not read file missing.xyz'', ''Number of atoms 8000'', ''opt'']"
proof -
  have r: "ase_io_read example_bench ''missing.xyz'' = Inl OSError"
    by (simp only: example_bench_simps)
  have x: "is_Exception OSError" by (simp add: is_Exception_def)
  have n: "str_nat (atoms_len example_bench 8000) = ''8000''"
    by (simp only: example_bench_simps str_nat_8000)
  note fb = benchmark_falls_back_on_read_failure[OF r x,
      of "(example_model, example_store)" "''opt''", unfolded example_atoms,
      THEN conjunct1, rule_format, OF example_time, unfolded n]
  have "benchmark example_bench (example_model, example_store) ''missing.xyz'' ''opt''
       = Inr [''Could not read file missing.xyz'', ''Number of atoms 8000'', ''opt'']"
    using fb by simp
  with r x show ?thesis by (intro conjI)
qed

section \<open>C9: the weight mapping handed to the contraction replacement\<close>



section \<open>C10: the node axis of a single-node batch is removed\<close>

text \<open>
  C10. When the kernel's result has size 1 along the node axis (a batch of exactly one
  node), the wrapper's forward removes that axis too: compared with a call whose result
  has \<open>n \<noteq> 1\<close> nodes and the same remaining axes, the output has one axis less.
\<close>

theorem squeeze_drops_node_axis:
  assumes "argmax_last y1 = Inr yi1"
    and "call (symmetric_contractions self) x1 (int_cast yi1) = Inr out1"
    and "shape out1 = 1 # ds"
    and "argmax_last yn = Inr yin"
    and "call (symmetric_contractions self) xn (int_cast yin) = Inr outn"
    and "shape outn = n # ds" and "n \<noteq> 1"
  shows "\<exists>r1 rn. SymmetricContractionWrapper_forward call self x1 y1 = Inr r1
           \<and> SymmetricContractionWrapper_forward call self xn yn = Inr rn
           \<and> shape r1 = filter (\<lambda>d. d \<noteq> 1) ds
           \<and> shape rn = n # filter (\<lambda>d. d \<noteq> 1) ds
           \<and> length (shape rn) = Suc (length (shape r1))"
  using assms
  by (simp add: SymmetricContractionWrapper_forward_def bind_err_def squeeze_def)

theorem squeeze_drops_node_axis_witness:
  "\<exists>r1 rn. SymmetricContractionWrapper_forward example_kernel example_wrapper example_x1 example_y1
              = Inr r1
     \<and> SymmetricContractionWrapper_forward example_kernel example_wrapper example_x2 example_y2
              = Inr rn
     \<and> shape r1 = filter (\<lambda>d. d \<noteq> 1) [2, 1]
     \<and> shape rn = 2 # filter (\<lambda>d. d \<noteq> 1) [2, 1]
     \<and> length (shape rn) = Suc (length (shape r1))"
proof -
  have k1: "example_kernel (symmetric_contractions example_wrapper) example_x1
              (int_cast \<lparr>shape = [1], data = [1]\<rparr>) = Inr \<lparr>shape = [1, 2, 1], data = [1, 1]\<rparr>"
    by (simp add: example_kernel_def int_cast_def)
  have k2: "example_kernel (symmetric_contractions example_wrapper) example_x2
              (int_cast \<lparr>shape = [2], data = [1, 2]\<rparr>)
              = Inr \<lparr>shape = [2, 2, 1], data = [1, 1, 2, 1]\<rparr>"
    by (simp add: example_kernel_def int_cast_def)
  show ?thesis
    using squeeze_drops_node_axis[where call = example_kernel and self = example_wrapper
        and ?x1.0 = example_x1 and xn = example_x2 and ds = "[2, 1]" and n = 2,
        OF argmax_y1 k1 _ argmax_y2 k2]
    by simp
qed

end
